theory Spec2Isabelle
  imports Complex_Main
begin

section \<open>VideoCrush: the encode orchestration of \<open>video_compressor.py\<close>\<close>

text \<open>
  The development embeds \<open>CompressionWorker.run\<close> and
  \<open>CompressionWorker._run_ffmpeg\<close> of \<open>src/video_compressor.py\<close>.

  Conventions of the embedding.
  \<^item> Python \<open>float\<close> values (\<open>target_mb\<close>, \<open>duration\<close> and everything computed
    from them) are exact rationals (\<open>rat\<close>): IEEE rounding is not modelled, so
    \<open>nan\<close> and \<open>inf\<close> do not occur.
  \<^item> Python \<open>int\<close> is \<open>int\<close>; \<open>//\<close> is \<open>div\<close> (both round towards minus infinity).
  \<^item> \<open>str\<close> and \<open>bytes\<close> are \<open>string\<close>; the diagnostic bytes are taken to be ASCII, so
    \<open>decode('utf-8', errors='replace')\<close> is the identity.
\<close>

subsection \<open>Python primitives used by the worker\<close>

text \<open>\<open>int(x)\<close> on a float truncates towards zero.\<close>

definition py_int_of_float :: "rat \<Rightarrow> int" where
  "py_int_of_float x = (if 0 \<le> x then \<lfloor>x\<rfloor> else \<lceil>x\<rceil>)"

definition is_digit :: "char \<Rightarrow> bool" where
  "is_digit c = (c \<in> set ''0123456789'')"

definition digit_val :: "char \<Rightarrow> int" where
  "digit_val c = int (of_char c) - 48"

text \<open>The value of a string of decimal digits, most significant first.\<close>

definition int_of_digits :: "string \<Rightarrow> int" where
  "int_of_digits ds = foldl (\<lambda>a c. 10 * a + digit_val c) 0 ds"

text \<open>
  Whitespace in the sense of \<open>str.strip()\<close> and \<open>str.isspace()\<close>, restricted to ASCII:
  tab, line feed, vertical tab, form feed, carriage return, the separators
  \<open>0x1c\<close> to \<open>0x1f\<close>, and the space.
\<close>

definition is_space :: "char \<Rightarrow> bool" where
  "is_space c = (of_char c \<in> {9::nat, 10, 11, 12, 13, 28, 29, 30, 31, 32})"

definition strip :: "string \<Rightarrow> string" where
  "strip s = rev (dropWhile is_space (rev (dropWhile is_space s)))"

text \<open>
  The digit part of an integer literal accepted by \<open>int(str)\<close>: digits, with single
  underscores allowed between digits.
\<close>

fun digits_ok :: "string \<Rightarrow> bool" where
  "digits_ok [] = False"
| "digits_ok [c] = is_digit c"
| "digits_ok (c # d # cs) =
     (if is_digit c then (if d = CHR ''_'' then digits_ok cs else digits_ok (d # cs))
      else False)"

text \<open>
  \<open>int(s)\<close> for a string: surrounding whitespace is stripped, one sign is allowed, and
  anything else raises \<open>ValueError\<close> (\<open>None\<close>).
\<close>

definition py_int_of_str :: "string \<Rightarrow> int option" where
  "py_int_of_str s =
     (let t = strip s;
          (neg, body) = (case t of
                           c # cs \<Rightarrow> if c = CHR ''-'' then (True, cs)
                                     else if c = CHR ''+'' then (False, cs)
                                     else (False, t)
                         | [] \<Rightarrow> (False, t))
      in if digits_ok body
         then (let v = int_of_digits (filter (\<lambda>c. c \<noteq> CHR ''_'') body)
               in Some (if neg then - v else v))
         else None)"

subsection \<open>The probe document and the worker\<close>

text \<open>
  One entry of \<open>info['streams']\<close>, with the two keys \<open>run\<close> reads; \<open>None\<close> is an
  absent key. \<open>ffprobe\<close> writes \<open>bit_rate\<close> as a string of digits.
\<close>

record stream =
  codec_type :: "string option"
  bit_rate :: "string option"

text \<open>
  The document returned by \<open>probe_video\<close>. \<open>format_duration\<close> is
  \<open>float(info['format'].get('duration', 0))\<close>, that is \<open>0\<close> when the key is absent;
  \<open>streams\<close> is \<open>info.get('streams', [])\<close>.
\<close>

record info =
  format_duration :: rat
  streams :: "stream list"

text \<open>The fields of \<open>CompressionWorker\<close> set by \<open>__init__\<close>.\<close>

record worker =
  input_path :: string
  output_path :: string
  target_mb :: rat
  video_codec :: string
  audio_codec :: string
  preset :: string
  resolution :: string
  audio_bitrate :: int

datatype exc = ValueError | OSError

datatype error =
    ToolNotFound
  | ProbeFailed
  | InvalidDuration
  | InsufficientBudget
  | BitrateTooLow int
  | OutputMissing
  | Raised exc

subsection \<open>Bitrate planning (\<open>run\<close>, lines 227 to 247)\<close>

text \<open>
  Lines 232 to 236: the loop over the streams when the audio is copied. The first
  stream whose \<open>codec_type\<close> is \<open>audio\<close> decides and ends the loop (\<open>break\<close>); without
  one the value set before the loop stays.
\<close>

fun copy_audio_kbps :: "int \<Rightarrow> stream list \<Rightarrow> exc + int" where
  "copy_audio_kbps audio_kbps [] = Inr audio_kbps"
| "copy_audio_kbps audio_kbps (s # ss) =
     (if codec_type s = Some ''audio''
      then (case bit_rate s of
              None \<Rightarrow> Inr (128000 div 1000)
            | Some b \<Rightarrow> (case py_int_of_str b of
                          None \<Rightarrow> Inl ValueError
                        | Some n \<Rightarrow> Inr (n div 1000)))
      else copy_audio_kbps audio_kbps ss)"

text \<open>Lines 229 to 236.\<close>

definition resolve_audio_kbps :: "worker \<Rightarrow> info \<Rightarrow> exc + int" where
  "resolve_audio_kbps w i =
     (let audio_kbps = (if audio_codec w \<notin> {''copy'', ''an''} then audio_bitrate w else 0)
      in if audio_codec w = ''copy'' then copy_audio_kbps audio_kbps (streams i)
         else Inr audio_kbps)"

text \<open>Lines 228 and 238 to 247: the split of the bit budget and its two checks.\<close>

definition plan_video_kbps :: "rat \<Rightarrow> rat \<Rightarrow> int \<Rightarrow> error + int" where
  "plan_video_kbps tmb duration audio_kbps =
     (let target_bits = tmb * 8 * 1024 * 1024;
          audio_bits = of_int audio_kbps * 1000 * duration;
          video_bits = target_bits - audio_bits
      in if video_bits \<le> 0 then Inl InsufficientBudget
         else (let video_kbps = py_int_of_float (video_bits / duration / 1000)
               in if video_kbps < 50 then Inl (BitrateTooLow video_kbps)
                  else Inr video_kbps))"

subsection \<open>Progress parsing (\<open>_run_ffmpeg\<close>, lines 390 to 403)\<close>

definition lower_char :: "char \<Rightarrow> char" where
  "lower_char c =
     (let n = (of_char c :: nat) in if 65 \<le> n \<and> n \<le> 90 then char_of (n + 32) else c)"

definition lower :: "string \<Rightarrow> string" where
  "lower s = map lower_char s"

text \<open>\<open>kw in text\<close>: the keyword occurs as a contiguous substring.\<close>

fun contains :: "string \<Rightarrow> string \<Rightarrow> bool" where
  "contains kw [] = (kw = [])"
| "contains kw (c # cs) = (take (length kw) (c # cs) = kw \<or> contains kw cs)"

text \<open>
  \<open>buffer.split(b'\r')\<close>: the segments between carriage returns; the result always has
  a last segment, the text after the last carriage return.
\<close>

definition CR :: char where
  "CR = char_of (13::nat)"

fun split_cr :: "string \<Rightarrow> string list" where
  "split_cr [] = [[]]"
| "split_cr (c # cs) =
     (if c = CR then [] # split_cr cs
      else (case split_cr cs of
              l # ls \<Rightarrow> (c # l) # ls
            | [] \<Rightarrow> [[c]]))"

text \<open>
  The regular expression \<open>time=(\d+):(\d+):(\d+)\.(\d+)\<close>. A group \<open>(\d+)\<close> is greedy
  and the character after it in the pattern is not a digit, so a match takes the whole
  run of digits: \<open>digits_then c\<close> is a non-empty run of digits followed by \<open>c\<close>.
\<close>

definition digits_then :: "char \<Rightarrow> string \<Rightarrow> (string \<times> string) option" where
  "digits_then c s =
     (let ds = takeWhile is_digit s; r = dropWhile is_digit s
      in if ds = [] then None
         else (case r of
                 [] \<Rightarrow> None
               | x # r' \<Rightarrow> if x = c then Some (ds, r') else None))"

text \<open>The pattern matched at the start of the text, with its four groups.\<close>

definition match_here :: "string \<Rightarrow> (string \<times> string \<times> string \<times> string) option" where
  "match_here s =
     (if take 5 s = ''time=''
      then (case digits_then (CHR '':'') (drop 5 s) of
              None \<Rightarrow> None
            | Some (h, r1) \<Rightarrow>
                (case digits_then (CHR '':'') r1 of
                   None \<Rightarrow> None
                 | Some (m, r2) \<Rightarrow>
                     (case digits_then (CHR ''.'') r2 of
                        None \<Rightarrow> None
                      | Some (sec, r3) \<Rightarrow>
                          (let f = takeWhile is_digit r3
                           in if f = [] then None else Some (h, m, sec, f)))))
      else None)"

text \<open>\<open>re.search\<close>: the leftmost position at which the pattern matches.\<close>

fun re_search_time :: "string \<Rightarrow> (string \<times> string \<times> string \<times> string) option" where
  "re_search_time [] = None"
| "re_search_time (c # cs) =
     (case match_here (c # cs) of
        Some g \<Rightarrow> Some g
      | None \<Rightarrow> re_search_time cs)"

subsection \<open>Signals\<close>

text \<open>
  The texts passed to the \<open>log\<close> and \<open>status\<close> signals, by the statement that emits
  them, with the values formatted into them. \<open>LogWarning\<close> is the text after the
  warning sign of lines 403 and 409.
\<close>

datatype log_msg =
    LogDuration rat
  | LogTarget rat
  | LogVideoBitrate int
  | LogAudioBitrate int
  | LogBlank
  | LogPassHeader nat
  | LogCommand "string list"
  | LogCancelled
  | LogWarning string
  | LogComplete
  | LogInput nat
  | LogOutput nat
  | LogSaved rat

datatype status_msg = Pass1Analyzing | Pass2Encoding | StatusCancelled

record result =
  res_output :: string
  res_size :: nat
  res_ratio :: rat

datatype event =
    Progress int
  | Log log_msg
  | Status status_msg
  | Finished result
  | Error error

text \<open>Lines 393 to 403: what one completed line emits.\<close>

definition line_events :: "rat \<Rightarrow> string \<Rightarrow> event list" where
  "line_events duration line =
     (let text = strip line
      in (case re_search_time text of
            Some (h, m, s, f) \<Rightarrow>
              (let current = int_of_digits h * 3600 + int_of_digits m * 60 + int_of_digits s;
                   pct = (if duration > 0
                          then min (py_int_of_float (of_int current / duration * 100)) 100
                          else 0)
               in [Progress pct])
          | None \<Rightarrow> [])
         @ (if list_ex (\<lambda>kw. contains kw (lower text))
                 [''error'', ''invalid'', ''failed'', ''unknown'']
            then [Log (LogWarning text)] else []))"

subsection \<open>The environment of a session\<close>

text \<open>
  What the worker observes of one spawned encoder process. \<open>spawn_fails\<close>: \<open>Popen\<close>
  raises. \<open>stderr_chunks\<close>: the successive results of \<open>proc.stderr.read(256)\<close>; a read
  after the last one returns the empty string (end of stream). \<open>returncode\<close>: the exit
  status after \<open>proc.wait()\<close>. \<open>writes\<close>: the files, with their sizes, that the process
  has left on disk when it has exited or has been terminated.
\<close>

record encoder =
  spawn_fails :: bool
  stderr_chunks :: "string list"
  returncode :: int
  writes :: "(string \<times> nat) list"

text \<open>
  \<open>self._cancelled\<close> is set by \<open>cancel()\<close> from another thread and never reset. The
  worker reads it at fixed places; the reads of one session are numbered from \<open>0\<close> in
  the order in which they happen, and \<open>cancel_at = Some n\<close> says that the flag was set
  before read \<open>n\<close> and after read \<open>n - 1\<close>; \<open>None\<close> that it is never set.
\<close>

definition flag_set :: "nat option \<Rightarrow> nat \<Rightarrow> bool" where
  "flag_set cancel_at clk = (case cancel_at of None \<Rightarrow> False | Some n \<Rightarrow> n \<le> clk)"

text \<open>The file system: the size of each existing path.\<close>

type_synonym fs = "string \<Rightarrow> nat option"

record env =
  ffmpeg :: "string option"
  probe :: "info option"
  win32 :: bool
  cancel_at :: "nat option"
  pass1_proc :: encoder
  pass2_proc :: encoder
  locked :: "string list"

text \<open>
  \<open>ffmpeg\<close> is the result of \<open>find_ffmpeg()\<close>, \<open>probe\<close> that of \<open>probe_video\<close> (\<open>None\<close>
  for a falsy result), \<open>win32\<close> is \<open>sys.platform == 'win32'\<close>, and \<open>locked\<close> lists the
  paths on which \<open>os.remove\<close> raises.
\<close>

definition apply_writes :: "fs \<Rightarrow> (string \<times> nat) list \<Rightarrow> fs" where
  "apply_writes f ws = fold (\<lambda>(p, n) g. g(p \<mapsto> n)) ws f"

definition os_remove :: "string list \<Rightarrow> fs \<Rightarrow> string \<Rightarrow> exc + fs" where
  "os_remove lk f p = (if p \<in> set lk then Inl OSError else Inr (f(p := None)))"

subsection \<open>The process supervisor (\<open>_run_ffmpeg\<close>, lines 369 to 410)\<close>

datatype loop_exit = SawCancel | EndOfStream

text \<open>
  The \<open>while True\<close> loop of lines 378 to 403, from one iteration on: the flag is read,
  then a chunk is read, appended to the buffer and split; every segment but the last is
  a completed line, the last one is the new buffer. The result is the way the loop was
  left, the number of the next flag read, the buffer, and the signals emitted.
\<close>

fun read_loop ::
  "nat option \<Rightarrow> rat \<Rightarrow> nat \<Rightarrow> string \<Rightarrow> string list \<Rightarrow> loop_exit \<times> nat \<times> string \<times> event list"
where
  "read_loop ca duration clk buffer [] =
     (if flag_set ca clk then (SawCancel, Suc clk, buffer, [])
      else (EndOfStream, Suc clk, buffer, []))"
| "read_loop ca duration clk buffer (chunk # rest) =
     (if flag_set ca clk then (SawCancel, Suc clk, buffer, [])
      else if chunk = [] then (EndOfStream, Suc clk, buffer, [])
      else (let lines = split_cr (buffer @ chunk);
                evs = concat (map (line_events duration) (butlast lines))
            in (case read_loop ca duration (Suc clk) (last lines) rest of
                  (ex, clk', buffer', evs') \<Rightarrow> (ex, clk', buffer', evs @ evs'))))"

text \<open>\<open>remaining[-500:]\<close>.\<close>

definition last500 :: "string \<Rightarrow> string" where
  "last500 s = drop (length s - 500) s"

text \<open>
  What \<open>_run_ffmpeg\<close> leaves behind: the signals it emitted, the number of the next
  flag read, and whether it called \<open>proc.terminate()\<close> (followed by \<open>proc.wait()\<close>).
\<close>

record ff_result =
  ff_events :: "event list"
  ff_clock :: nat
  ff_terminated :: bool

text \<open>
  \<open>_run_ffmpeg\<close>. In line 406 the flag is read only when the exit status is not zero
  (\<open>and\<close> evaluates its right operand only then).
\<close>

definition run_ffmpeg :: "nat option \<Rightarrow> nat \<Rightarrow> rat \<Rightarrow> encoder \<Rightarrow> exc + ff_result" where
  "run_ffmpeg ca clk duration p =
     (if spawn_fails p then Inl OSError
      else (case read_loop ca duration clk [] (stderr_chunks p) of
              (SawCancel, clk', buffer, evs) \<Rightarrow>
                Inr \<lparr>ff_events = evs, ff_clock = clk', ff_terminated = True\<rparr>
            | (EndOfStream, clk', buffer, evs) \<Rightarrow>
                (if returncode p \<noteq> 0
                 then (if \<not> flag_set ca clk'
                       then (let remaining = strip buffer
                             in Inr \<lparr>ff_events = evs
                                       @ (if remaining \<noteq> []
                                          then [Log (LogWarning (last500 remaining))] else [])
                                       @ [Progress 100],
                                     ff_clock = Suc clk', ff_terminated = False\<rparr>)
                       else Inr \<lparr>ff_events = evs @ [Progress 100],
                                  ff_clock = Suc clk', ff_terminated = False\<rparr>)
                 else Inr \<lparr>ff_events = evs @ [Progress 100],
                            ff_clock = clk', ff_terminated = False\<rparr>)))"

subsection \<open>Argument lists (\<open>run\<close>, lines 256 to 333)\<close>

text \<open>\<open>str(n)\<close> as formatted into an f-string.\<close>

fun str_of_nat :: "nat \<Rightarrow> string" where
  "str_of_nat n =
     (if n < 10 then [char_of (48 + n)]
      else str_of_nat (n div 10) @ [char_of (48 + n mod 10)])"

declare str_of_nat.simps [simp del]

definition str_of_int :: "int \<Rightarrow> string" where
  "str_of_int i = (if i < 0 then CHR ''-'' # str_of_nat (nat (- i)) else str_of_nat (nat i))"

text \<open>
  \<open>os.path.dirname\<close>, \<open>os.path.basename\<close> and \<open>os.path.join\<close> in their POSIX flavour
  (\<open>posixpath\<close>); the flavour used on win32 is not modelled.
\<close>

definition dirname :: "string \<Rightarrow> string" where
  "dirname p =
     (let head = rev (dropWhile (\<lambda>c. c \<noteq> CHR ''/'') (rev p))
      in if head \<noteq> [] \<and> \<not> list_all (\<lambda>c. c = CHR ''/'') head
         then rev (dropWhile (\<lambda>c. c = CHR ''/'') (rev head))
         else head)"

definition basename :: "string \<Rightarrow> string" where
  "basename p = rev (takeWhile (\<lambda>c. c \<noteq> CHR ''/'') (rev p))"

definition path_join :: "string \<Rightarrow> string \<Rightarrow> string" where
  "path_join a b =
     (if take 1 b = ''/'' then b
      else if a = [] \<or> last a = CHR ''/'' then a @ b
      else a @ ''/'' @ b)"

text \<open>
  \<open>os.path.join(os.path.dirname(self.output_path), 'ffmpeg2pass')\<close>, as written in
  lines 283, 291, 316, 323 and 359.
\<close>

definition passlog_base :: "worker \<Rightarrow> string" where
  "passlog_base w = path_join (dirname (output_path w)) ''ffmpeg2pass''"

text \<open>
  Lines 257 to 262: the scaling filter. \<open>int(...)\<close> raises on a label that is not a
  number followed by \<open>p\<close>.
\<close>

definition vf_arg :: "worker \<Rightarrow> exc + string option" where
  "vf_arg w =
     (if resolution w \<noteq> [] \<and> resolution w \<noteq> ''Original''
      then (case py_int_of_str (filter (\<lambda>c. c \<noteq> CHR ''p'') (resolution w)) of
              None \<Rightarrow> Inl ValueError
            | Some h \<Rightarrow> Inr (Some (''scale=-2:'' @ str_of_int h)))
      else Inr None)"

definition null_out :: "bool \<Rightarrow> string" where
  "null_out win = (if win then ''NUL'' else ''/dev/null'')"

text \<open>Lines 273 to 292: the argument list of pass 1.\<close>

definition pass1_cmd :: "bool \<Rightarrow> string \<Rightarrow> worker \<Rightarrow> string option \<Rightarrow> int \<Rightarrow> string list" where
  "pass1_cmd win ff w vf video_kbps =
     (let codec_name = video_codec w;
          is_vp9 = (codec_name = ''libvpx-vp9'');
          is_av1 = (codec_name = ''libsvtav1'');
          cmd = [ff, ''-y'', ''-i'', input_path w]
                @ (case vf of Some v \<Rightarrow> [''-vf'', v] | None \<Rightarrow> [])
                @ [''-c:v'', codec_name, ''-b:v'', str_of_int video_kbps @ ''k'']
      in if is_vp9
         then cmd @ [''-pass'', ''1'', ''-passlogfile'', passlog_base w,
                     ''-speed'', ''4'', ''-an'', ''-f'', ''webm'', null_out win]
         else if is_av1 then cmd
         else cmd
              @ (if preset w \<noteq> [] \<and> \<not> is_av1 then [''-preset'', preset w] else [])
              @ [''-pass'', ''1'', ''-passlogfile'', passlog_base w,
                 ''-an'', ''-f'', ''null'', null_out win])"

text \<open>Lines 308 to 333: the argument list of pass 2.\<close>

definition pass2_cmd :: "string \<Rightarrow> worker \<Rightarrow> string option \<Rightarrow> int \<Rightarrow> string list" where
  "pass2_cmd ff w vf video_kbps =
     (let codec_name = video_codec w;
          is_vp9 = (codec_name = ''libvpx-vp9'');
          is_av1 = (codec_name = ''libsvtav1'');
          cmd = [ff, ''-y'', ''-i'', input_path w]
                @ (case vf of Some v \<Rightarrow> [''-vf'', v] | None \<Rightarrow> [])
                @ [''-c:v'', codec_name, ''-b:v'', str_of_int video_kbps @ ''k''];
          cmd2 = (if is_vp9
                  then cmd @ [''-pass'', ''2'', ''-passlogfile'', passlog_base w,
                              ''-speed'', ''2'']
                  else if is_av1
                  then cmd @ [''-svtav1-params'', ''tbr='' @ str_of_int video_kbps]
                  else cmd
                       @ (if preset w \<noteq> [] then [''-preset'', preset w] else [])
                       @ [''-pass'', ''2'', ''-passlogfile'', passlog_base w]);
          cmd3 = (if audio_codec w = ''an'' then cmd2 @ [''-an'']
                  else if audio_codec w = ''copy'' then cmd2 @ [''-c:a'', ''copy'']
                  else cmd2 @ [''-c:a'', audio_codec w,
                               ''-b:a'', str_of_int (audio_bitrate w) @ ''k''])
      in cmd3 @ [''-movflags'', ''+faststart'', output_path w])"

text \<open>The command as logged in lines 295 and 335: the first element by its base name.\<close>

definition shown_cmd :: "string list \<Rightarrow> string list" where
  "shown_cmd cmd = (case cmd of [] \<Rightarrow> [] | c # cs \<Rightarrow> basename c # cs)"

subsection \<open>The orchestrator (\<open>run\<close>, lines 209 to 367)\<close>

text \<open>
  The way \<open>run\<close> ends: \<open>Completed\<close> when \<open>finished\<close> was emitted, \<open>Cancelled\<close> at the
  two \<open>return\<close>s of lines 301 and 343, \<open>Failed\<close> when \<open>error\<close> was emitted;
  \<open>Failed (Raised x)\<close> is the handler of line 366, reached from the statement that
  raised. A session result also has the signals in the order of their emission, the
  file system at the end, and the processes spawned, each with its argument list and
  whether it was terminated by the worker.
\<close>

datatype outcome = Completed result | Failed error | Cancelled

record run_result =
  outcome :: outcome
  emitted :: "event list"
  files :: fs
  procs :: "(string list \<times> bool) list"

text \<open>
  Lines 346 to 356: the report. \<open>os.path.getsize\<close> raises on a missing input file,
  before anything is emitted.
\<close>

definition report :: "worker \<Rightarrow> fs \<Rightarrow> exc + outcome \<times> event list" where
  "report w f =
     (case f (output_path w) of
        Some out_size \<Rightarrow>
          (case f (input_path w) of
             None \<Rightarrow> Inl OSError
           | Some in_size \<Rightarrow>
               (let ratio = (if in_size > 0
                             then (1 - of_nat out_size / of_nat in_size) * 100 else 0);
                    res = \<lparr>res_output = output_path w, res_size = out_size, res_ratio = ratio\<rparr>
                in Inr (Completed res,
                        [Log LogComplete, Log (LogInput in_size), Log (LogOutput out_size),
                         Log (LogSaved ratio), Finished res])))
      | None \<Rightarrow> Inr (Failed OutputMissing, [Error OutputMissing]))"

text \<open>Lines 359 to 364: the removal of the pass logs; a removal that raises is passed over.\<close>

definition passlog_suffixes :: "string list" where
  "passlog_suffixes = [[], ''-0.log'', ''-0.log.mbtree'', ''.log'', ''.log.mbtree'']"

fun cleanup :: "string list \<Rightarrow> string \<Rightarrow> string list \<Rightarrow> fs \<Rightarrow> fs" where
  "cleanup lk base [] f = f"
| "cleanup lk base (suffix # rest) f =
     (let p = base @ suffix
      in cleanup lk base rest
           (if f p \<noteq> None
            then (case os_remove lk f p of Inl x \<Rightarrow> f | Inr f' \<Rightarrow> f')
            else f))"

text \<open>
  Lines 303 to 364: pass 2, the check of the flag after it, the report and the
  cleanup. \<open>clk\<close> numbers the next read of the flag, \<open>ev\<close> and \<open>ps\<close> are the signals and
  processes so far.
\<close>

definition second_pass ::
  "worker \<Rightarrow> env \<Rightarrow> string \<Rightarrow> rat \<Rightarrow> string option \<Rightarrow> int \<Rightarrow> nat \<Rightarrow> event list \<Rightarrow> fs
     \<Rightarrow> (string list \<times> bool) list \<Rightarrow> run_result"
where
  "second_pass w e ff duration vf video_kbps clk ev f ps =
     (let cmd = pass2_cmd ff w vf video_kbps;
          ev1 = ev @ [Status Pass2Encoding, Log (LogPassHeader 2), Progress 0,
                      Log (LogCommand (shown_cmd cmd))]
      in (case run_ffmpeg (cancel_at e) clk duration (pass2_proc e) of
            Inl x \<Rightarrow>
              \<lparr>outcome = Failed (Raised x), emitted = ev1 @ [Error (Raised x)],
               files = f, procs = ps\<rparr>
          | Inr r \<Rightarrow>
              (let f1 = apply_writes f (writes (pass2_proc e));
                   ev2 = ev1 @ ff_events r;
                   ps2 = ps @ [(cmd, ff_terminated r)]
               in if flag_set (cancel_at e) (ff_clock r)
                  then (let ev3 = ev2 @ [Log LogCancelled, Status StatusCancelled]
                        in if f1 (output_path w) \<noteq> None
                           then (case os_remove (locked e) f1 (output_path w) of
                                   Inl x \<Rightarrow>
                                     \<lparr>outcome = Failed (Raised x),
                                      emitted = ev3 @ [Error (Raised x)],
                                      files = f1, procs = ps2\<rparr>
                                 | Inr f2 \<Rightarrow>
                                     \<lparr>outcome = Cancelled, emitted = ev3,
                                      files = f2, procs = ps2\<rparr>)
                           else \<lparr>outcome = Cancelled, emitted = ev3,
                                 files = f1, procs = ps2\<rparr>)
                  else (case report w f1 of
                          Inl x \<Rightarrow>
                            \<lparr>outcome = Failed (Raised x), emitted = ev2 @ [Error (Raised x)],
                             files = f1, procs = ps2\<rparr>
                        | Inr (oc, evr) \<Rightarrow>
                            \<lparr>outcome = oc, emitted = ev2 @ evr,
                             files = cleanup (locked e) (passlog_base w) passlog_suffixes f1,
                             procs = ps2\<rparr>))))"

text \<open>Lines 249 to 301, followed by pass 2: the session once the plan is made.\<close>

definition encode :: "worker \<Rightarrow> env \<Rightarrow> string \<Rightarrow> rat \<Rightarrow> int \<Rightarrow> int \<Rightarrow> fs \<Rightarrow> run_result" where
  "encode w e ff duration video_kbps audio_kbps f =
     (let ev0 = [Log (LogDuration duration), Log (LogTarget (target_mb w)),
                 Log (LogVideoBitrate video_kbps)]
                @ (if audio_kbps > 0 then [Log (LogAudioBitrate audio_kbps)] else [])
                @ [Log LogBlank]
      in (case vf_arg w of
            Inl x \<Rightarrow>
              \<lparr>outcome = Failed (Raised x), emitted = ev0 @ [Error (Raised x)],
               files = f, procs = []\<rparr>
          | Inr vf \<Rightarrow>
              (let is_av1 = (video_codec w = ''libsvtav1'');
                   ev1 = ev0 @ [Status Pass1Analyzing, Log (LogPassHeader 1)];
                   cmd = pass1_cmd (win32 e) ff w vf video_kbps
               in if \<not> is_av1
                  then (let ev2 = ev1 @ [Log (LogCommand (shown_cmd cmd))]
                        in (case run_ffmpeg (cancel_at e) 0 duration (pass1_proc e) of
                              Inl x \<Rightarrow>
                                \<lparr>outcome = Failed (Raised x),
                                 emitted = ev2 @ [Error (Raised x)],
                                 files = f, procs = []\<rparr>
                            | Inr r \<Rightarrow>
                                (let f1 = apply_writes f (writes (pass1_proc e));
                                     ev3 = ev2 @ ff_events r;
                                     ps = [(cmd, ff_terminated r)]
                                 in if flag_set (cancel_at e) (ff_clock r)
                                    then \<lparr>outcome = Cancelled,
                                          emitted = ev3 @ [Log LogCancelled,
                                                           Status StatusCancelled],
                                          files = f1, procs = ps\<rparr>
                                    else second_pass w e ff duration vf video_kbps
                                           (Suc (ff_clock r)) ev3 f1 ps)))
                  else second_pass w e ff duration vf video_kbps 0 ev1 f [])))"

text \<open>Lines 209 to 247, followed by the encoding: the whole of \<open>run\<close>.\<close>

definition failed :: "error \<Rightarrow> fs \<Rightarrow> run_result" where
  "failed err f = \<lparr>outcome = Failed err, emitted = [Error err], files = f, procs = []\<rparr>"

definition run :: "worker \<Rightarrow> env \<Rightarrow> fs \<Rightarrow> run_result" where
  "run w e f =
     (case ffmpeg e of
        None \<Rightarrow> failed ToolNotFound f
      | Some ff \<Rightarrow>
          (case probe e of
             None \<Rightarrow> failed ProbeFailed f
           | Some i \<Rightarrow>
               (let duration = format_duration i
                in if duration \<le> 0 then failed InvalidDuration f
                   else (case resolve_audio_kbps w i of
                           Inl x \<Rightarrow> failed (Raised x) f
                         | Inr audio_kbps \<Rightarrow>
                             (case plan_video_kbps (target_mb w) duration audio_kbps of
                                Inl err \<Rightarrow> failed err f
                              | Inr video_kbps \<Rightarrow>
                                  encode w e ff duration video_kbps audio_kbps f)))))"

subsection \<open>Observations and sample sessions used in the properties\<close>


text \<open>
  The buffer and the signals after the read loop has consumed the chunks \<open>cs\<close>, starting
  with the buffer \<open>buf\<close>, in a session whose flag is never set.
\<close>

definition loop_buffer :: "rat \<Rightarrow> string \<Rightarrow> string list \<Rightarrow> string" where
  "loop_buffer d buf cs = fst (snd (snd (read_loop None d 0 buf cs)))"

definition loop_events :: "rat \<Rightarrow> string \<Rightarrow> string list \<Rightarrow> event list" where
  "loop_events d buf cs = snd (snd (snd (read_loop None d 0 buf cs)))"

text \<open>
  Line 47 (\<open>OUTPUT_FORMATS\<close>) and lines 711 to 713 of \<open>start_compression\<close>: the output
  path of a request is the source's stem with \<open>_compressed\<close> and the extension of the
  chosen container, in the source's directory (\<open>src.parent\<close> and \<open>src.stem\<close> are taken as
  given).
\<close>

definition OUTPUT_FORMATS :: "(string \<times> string) list" where
  "OUTPUT_FORMATS = [(''mp4'', ''.mp4''), (''mkv'', ''.mkv''), (''webm'', ''.webm'')]"

definition gui_output_path :: "string \<Rightarrow> string \<Rightarrow> string \<Rightarrow> string" where
  "gui_output_path parent stem ext = path_join parent (stem @ ''_compressed'' @ ext)"

text \<open>
  A two-pass H.264 request for \<open>/v/clip.mkv\<close>, and a VP9 request for the same source
  with the container \<open>mp4\<close>.
\<close>

definition h264_worker :: worker where
  "h264_worker =
     \<lparr>input_path = ''/v/clip.mkv'', output_path = gui_output_path ''/v'' ''clip'' ''.mp4'',
      target_mb = 25, video_codec = ''libx264'', audio_codec = ''aac'',
      preset = ''medium'', resolution = ''Original'', audio_bitrate = 128\<rparr>"

definition vp9_worker :: worker where
  "vp9_worker =
     \<lparr>input_path = ''/v/clip.mkv'', output_path = gui_output_path ''/v'' ''clip'' ''.mp4'',
      target_mb = 25, video_codec = ''libvpx-vp9'', audio_codec = ''aac'',
      preset = ''medium'', resolution = ''Original'', audio_bitrate = 128\<rparr>"

text \<open>
  An encoder for pass 1 that reports a timestamp cut by a chunk boundary and leaves the
  pass log \<open>/v/ffmpeg2pass-0.log\<close>, and one for pass 2 that writes the output file and
  exits with status 1.
\<close>

definition analysis_proc :: encoder where
  "analysis_proc =
     \<lparr>spawn_fails = False,
      stderr_chunks = [''time=00:01:'', ''00.00'' @ [CR], ''time=00:02:00.00'' @ [CR]],
      returncode = 0,
      writes = [(''/v/ffmpeg2pass-0.log'', 100)]\<rparr>"

definition final_proc :: encoder where
  "final_proc =
     \<lparr>spawn_fails = False,
      stderr_chunks = [''time=00:05:00.00'' @ [CR], ''Conversion failed!''],
      returncode = 1,
      writes = [(''/v/clip_compressed.mp4'', 1000)]\<rparr>"

text \<open>
  A host with a ten-minute source without streams of interest; \<open>cancel_session n\<close> is
  the session in which the flag is set before its read number \<open>n\<close>.
\<close>

definition cancel_session :: "nat option \<Rightarrow> env" where
  "cancel_session ca =
     \<lparr>ffmpeg = Some ''/usr/bin/ffmpeg'',
      probe = Some \<lparr>format_duration = 600, streams = []\<rparr>,
      win32 = False, cancel_at = ca,
      pass1_proc = analysis_proc, pass2_proc = final_proc, locked = []\<rparr>"

definition source_only :: fs where
  "source_only = [''/v/clip.mkv'' \<mapsto> 5000]"

section \<open>Properties\<close>

subsection \<open>The bitrate planner\<close>











subsection \<open>The audio bitrate when the audio is copied\<close>

lemma copy_audio_kbps_no_audio:
  "\<forall>s \<in> set ss. codec_type s \<noteq> Some ''audio'' \<Longrightarrow> copy_audio_kbps k ss = Inr k"
  by (induction ss) auto

lemma copy_audio_kbps_first:
  assumes "\<forall>s \<in> set pre. codec_type s \<noteq> Some ''audio''" and "codec_type a = Some ''audio''"
  shows "copy_audio_kbps k (pre @ a # post) =
           (case bit_rate a of
              None \<Rightarrow> Inr 128
            | Some b \<Rightarrow> (case py_int_of_str b of
                          None \<Rightarrow> Inl ValueError
                        | Some n \<Rightarrow> Inr (n div 1000)))"
  using assms by (induction pre) (auto split: option.splits)

text \<open>
  Claim C9. With the audio policy \<open>copy\<close>, a source without any audio stream plans
  0 kbps of audio. When there is an audio stream, the first one in the list decides
  alone, whatever follows it: 128 kbps when it has no \<open>bit_rate\<close> field, and its
  \<open>bit_rate\<close> divided by 1000 otherwise (a \<open>ValueError\<close> when the field is not an
  integer literal).
\<close>

theorem copy_policy_audio_kbps:
  "(audio_codec w = ''copy'' \<and> (\<forall>s \<in> set (streams i). codec_type s \<noteq> Some ''audio'')
      \<longrightarrow> resolve_audio_kbps w i = Inr 0)
   \<and> (audio_codec w = ''copy'' \<and> streams i = pre @ a # post
        \<and> (\<forall>s \<in> set pre. codec_type s \<noteq> Some ''audio'') \<and> codec_type a = Some ''audio''
      \<longrightarrow> resolve_audio_kbps w i =
            (case bit_rate a of
               None \<Rightarrow> Inr 128
             | Some b \<Rightarrow> (case py_int_of_str b of
                           None \<Rightarrow> Inl ValueError
                         | Some n \<Rightarrow> Inr (n div 1000))))"
  by (simp add: resolve_audio_kbps_def copy_audio_kbps_no_audio copy_audio_kbps_first)

theorem copy_policy_audio_kbps_witness:
  "resolve_audio_kbps
     \<lparr>input_path = ''/v/clip.mkv'', output_path = ''/v/clip_compressed.mp4'',
      target_mb = 25, video_codec = ''libx264'', audio_codec = ''copy'',
      preset = ''medium'', resolution = ''Original'', audio_bitrate = 192\<rparr>
     \<lparr>format_duration = 600,
      streams = [\<lparr>codec_type = Some ''video'', bit_rate = Some ''900000''\<rparr>]\<rparr> = Inr 0
   \<and> resolve_audio_kbps
     \<lparr>input_path = ''/v/clip.mkv'', output_path = ''/v/clip_compressed.mp4'',
      target_mb = 25, video_codec = ''libx264'', audio_codec = ''copy'',
      preset = ''medium'', resolution = ''Original'', audio_bitrate = 192\<rparr>
     \<lparr>format_duration = 600,
      streams = [\<lparr>codec_type = Some ''video'', bit_rate = Some ''900000''\<rparr>,
                 \<lparr>codec_type = Some ''audio'', bit_rate = None\<rparr>,
                 \<lparr>codec_type = Some ''audio'', bit_rate = Some ''192000''\<rparr>]\<rparr> = Inr 128"
  using copy_policy_audio_kbps
          [of "\<lparr>input_path = ''/v/clip.mkv'', output_path = ''/v/clip_compressed.mp4'',
                target_mb = 25, video_codec = ''libx264'', audio_codec = ''copy'',
                preset = ''medium'', resolution = ''Original'', audio_bitrate = 192\<rparr>"
              "\<lparr>format_duration = 600,
                streams = [\<lparr>codec_type = Some ''video'', bit_rate = Some ''900000''\<rparr>]\<rparr>"]
        copy_policy_audio_kbps
          [of "\<lparr>input_path = ''/v/clip.mkv'', output_path = ''/v/clip_compressed.mp4'',
                target_mb = 25, video_codec = ''libx264'', audio_codec = ''copy'',
                preset = ''medium'', resolution = ''Original'', audio_bitrate = 192\<rparr>"
              "\<lparr>format_duration = 600,
                streams = [\<lparr>codec_type = Some ''video'', bit_rate = Some ''900000''\<rparr>,
                           \<lparr>codec_type = Some ''audio'', bit_rate = None\<rparr>,
                           \<lparr>codec_type = Some ''audio'', bit_rate = Some ''192000''\<rparr>]\<rparr>"
              "[\<lparr>codec_type = Some ''video'', bit_rate = Some ''900000''\<rparr>]"
              "\<lparr>codec_type = Some ''audio'', bit_rate = None\<rparr>"
              "[\<lparr>codec_type = Some ''audio'', bit_rate = Some ''192000''\<rparr>]"]
  by simp

subsection \<open>Progress parsing\<close>












subsection \<open>Splitting the diagnostic stream\<close>







text \<open>When the flag is never set, the number of the first read does not matter.\<close>

lemma read_loop_never_cancelled:
  "read_loop None d clk buf cs =
     (EndOfStream, clk + Suc (length (takeWhile (\<lambda>c. c \<noteq> []) cs)),
      fst (snd (snd (read_loop None d 0 buf cs))), snd (snd (snd (read_loop None d 0 buf cs))))"
proof (induction cs arbitrary: clk buf)
  case Nil
  show ?case by (simp add: flag_set_def)
next
  case (Cons c cs)
  show ?case
    by (simp add: flag_set_def Let_def Cons.IH [of "Suc clk"] Cons.IH [of "Suc 0"]
             split: prod.splits)
qed

lemma loop_nil: "loop_events d buf [] = []" "loop_buffer d buf [] = buf"
  by (simp_all add: loop_events_def loop_buffer_def flag_set_def)

lemma loop_step:
  "c \<noteq> [] \<Longrightarrow> loop_events d buf (c # cs) =
     concat (map (line_events d) (butlast (split_cr (buf @ c))))
     @ loop_events d (last (split_cr (buf @ c))) cs"
  "c \<noteq> [] \<Longrightarrow> loop_buffer d buf (c # cs) = loop_buffer d (last (split_cr (buf @ c))) cs"
  unfolding loop_events_def loop_buffer_def
  by (simp_all add: flag_set_def Let_def read_loop_never_cancelled [of d "Suc 0"]
                split: prod.splits)








subsection \<open>Cancellation and the end of a pass\<close>

lemma flag_set_mono: "flag_set ca k \<Longrightarrow> k \<le> k' \<Longrightarrow> flag_set ca k'"
  by (auto simp: flag_set_def split: option.splits)

lemma read_loop_flag_set:
  "flag_set ca clk \<Longrightarrow> read_loop ca d clk buf cs = (SawCancel, Suc clk, buf, [])"
  by (cases cs) simp_all

text \<open>The flag is set when exactly \<open>length pre\<close> chunks have been read: the rest is not read.\<close>

lemma read_loop_cancel_after:
  assumes "[] \<notin> set pre"
  shows "read_loop (Some (clk + length pre)) d clk buf (pre @ rest) =
           (SawCancel, Suc (clk + length pre), loop_buffer d buf pre, loop_events d buf pre)"
  using assms
proof (induction pre arbitrary: clk buf)
  case Nil
  show ?case by (simp add: read_loop_flag_set flag_set_def loop_nil)
next
  case (Cons c pre)
  then have c: "c \<noteq> []" and p: "[] \<notin> set pre" by auto
  have nf: "\<not> flag_set (Some (clk + length (c # pre))) clk" by (simp add: flag_set_def)
  have ih: "read_loop (Some (Suc (clk + length pre))) d (Suc clk) b (pre @ rest) =
           (SawCancel, Suc (Suc (clk + length pre)), loop_buffer d b pre, loop_events d b pre)"
    for b
    using Cons.IH [OF p, of "Suc clk" b] by simp
  show ?case
    using c nf by (simp add: Let_def ih loop_step [OF c])
qed

text \<open>
  How the loop is left: at the end of the stream after one read of the flag per chunk
  and one more, none of which saw the flag; or by the flag, seen at its last read.
\<close>

lemma read_loop_exit:
  "read_loop ca d clk buf cs = (ex, clk', b, evs) \<Longrightarrow>
     clk' = Suc (clk + length (takeWhile (\<lambda>c. c \<noteq> []) cs)) \<and> ex = EndOfStream
       \<and> \<not> flag_set ca (clk' - 1) \<and> b = loop_buffer d buf cs \<and> evs = loop_events d buf cs
     \<or> ex = SawCancel \<and> flag_set ca (clk' - 1)
       \<and> clk' \<le> Suc (clk + length (takeWhile (\<lambda>c. c \<noteq> []) cs))"
proof (induction cs arbitrary: clk buf evs ex clk' b)
  case Nil
  then show ?case by (auto simp: loop_nil split: if_splits)
next
  case (Cons c cs)
  show ?case
  proof (cases "flag_set ca clk \<or> c = []")
    case True
    with Cons.prems show ?thesis
      by (auto simp: loop_nil loop_events_def loop_buffer_def split: if_splits)
  next
    case False
    then have c: "c \<noteq> []" and nf: "\<not> flag_set ca clk" by auto
    obtain ex2 k2 b2 e2
      where r: "read_loop ca d (Suc clk) (last (split_cr (buf @ c))) cs = (ex2, k2, b2, e2)"
      by (cases "read_loop ca d (Suc clk) (last (split_cr (buf @ c))) cs") auto
    from Cons.prems c nf r have eq: "ex = ex2" "clk' = k2" "b = b2"
        "evs = concat (map (line_events d) (butlast (split_cr (buf @ c)))) @ e2"
      by (auto simp: Let_def)
    from Cons.IH [OF r] show ?thesis
      using eq c by (auto simp: loop_step [OF c])
  qed
qed

lemma read_loop_events_no_error:
  "Error x \<notin> set (snd (snd (snd (read_loop ca d clk buf cs))))"
proof (induction cs arbitrary: clk buf)
  case Nil
  show ?case by simp
next
  case (Cons c cs)
  have le: "Error x \<notin> set (line_events d l)" for l
    by (auto simp: line_events_def Let_def split: option.splits)
  show ?case using Cons [of "Suc clk" "last (split_cr (buf @ c))"] le
    by (auto simp: Let_def split: prod.splits)
qed

lemma run_ffmpeg_no_error: "run_ffmpeg ca clk d p = Inr r \<Longrightarrow> Error x \<notin> set (ff_events r)"
  using read_loop_events_no_error [of x ca d clk "[]" "stderr_chunks p"]
  by (auto simp: run_ffmpeg_def Let_def split: if_splits prod.splits loop_exit.splits)

text \<open>A process is only terminated when the flag is set, and the flag stays set.\<close>

lemma run_ffmpeg_terminated_flag:
  assumes "run_ffmpeg ca clk d p = Inr r" and "ff_terminated r"
  shows "flag_set ca (ff_clock r)"
proof -
  obtain ex k b evs where rl: "read_loop ca d clk [] (stderr_chunks p) = (ex, k, b, evs)"
    by (cases "read_loop ca d clk [] (stderr_chunks p)") auto
  from assms rl have "ex = SawCancel" and k: "ff_clock r = k"
    by (auto simp: run_ffmpeg_def Let_def split: if_splits loop_exit.splits)
  with read_loop_exit [OF rl] have "flag_set ca (k - 1)" by auto
  then show ?thesis unfolding k by (rule flag_set_mono) simp
qed

lemma final_progress:
  assumes "run_ffmpeg ca clk d p = Inr r" and "\<not> ff_terminated r"
  shows "ff_events r \<noteq> [] \<and> last (ff_events r) = Progress 100"
  using assms
  by (auto simp: run_ffmpeg_def Let_def split: if_splits prod.splits loop_exit.splits)

lemma run_ffmpeg_cancel_after:
  assumes "\<not> spawn_fails p" and "stderr_chunks p = pre @ rest" and "[] \<notin> set pre"
  shows "run_ffmpeg (Some (clk + length pre)) clk d p =
           Inr \<lparr>ff_events = loop_events d [] pre, ff_clock = Suc (clk + length pre),
                 ff_terminated = True\<rparr>"
  using assms by (simp add: run_ffmpeg_def read_loop_cancel_after)

text \<open>
  When the flag is set by the time of the read of line 406, nothing but the final
  progress is emitted after the loop.
\<close>

lemma run_ffmpeg_exit_not_reported:
  assumes "\<not> spawn_fails p"
    and "flag_set ca (Suc (clk + length (takeWhile (\<lambda>c. c \<noteq> []) (stderr_chunks p))))"
  shows "\<exists>r. run_ffmpeg ca clk d p = Inr r
           \<and> (ff_events r = snd (snd (snd (read_loop ca d clk [] (stderr_chunks p))))
              \<or> ff_events r = snd (snd (snd (read_loop ca d clk [] (stderr_chunks p))))
                               @ [Progress 100])"
proof -
  obtain ex k b evs where rl: "read_loop ca d clk [] (stderr_chunks p) = (ex, k, b, evs)"
    by (cases "read_loop ca d clk [] (stderr_chunks p)") auto
  show ?thesis
  proof (cases ex)
    case SawCancel
    with assms(1) rl show ?thesis by (simp add: run_ffmpeg_def)
  next
    case EndOfStream
    with read_loop_exit [OF rl]
    have "k = Suc (clk + length (takeWhile (\<lambda>c. c \<noteq> []) (stderr_chunks p)))" by auto
    with assms(2) have "flag_set ca k" by simp
    with assms(1) rl EndOfStream show ?thesis by (simp add: run_ffmpeg_def)
  qed
qed

text \<open>
  Claim C10. A pass that was not terminated by the worker, that is, whose read loop
  ended with the stream, ends with a progress signal of 100, whatever the exit status
  of the process (the status is not a hypothesis).
\<close>

theorem final_progress_100:
  assumes "run_ffmpeg ca clk d p = Inr r" and "\<not> ff_terminated r"
  shows "ff_events r \<noteq> [] \<and> last (ff_events r) = Progress 100"
  using assms by (rule final_progress)

lemma final_proc_uncancelled:
  "run_ffmpeg None 0 600 final_proc =
     Inr \<lparr>ff_events = [Progress 50, Log (LogWarning ''Conversion failed!''), Progress 100],
           ff_clock = 4, ff_terminated = False\<rparr>"
  by code_simp

theorem final_progress_100_witness:
  "returncode final_proc = 1
   \<and> run_ffmpeg None 0 600 final_proc =
       Inr \<lparr>ff_events = [Progress 50, Log (LogWarning ''Conversion failed!''), Progress 100],
             ff_clock = 4, ff_terminated = False\<rparr>
   \<and> last [Progress 50, Log (LogWarning ''Conversion failed!''), Progress 100] = Progress 100"
  using final_progress_100 [OF final_proc_uncancelled] final_proc_uncancelled
  by (simp add: final_proc_def)

subsection \<open>The orchestrator\<close>

lemma apply_writes_absent:
  "f p = None \<Longrightarrow> p \<notin> fst ` set ws \<Longrightarrow> apply_writes f ws p = None"
  unfolding apply_writes_def
  by (induction ws arbitrary: f) (auto split: prod.splits)

lemma report_not_cancelled: "report w f = Inr (oc, evr) \<Longrightarrow> oc \<noteq> Cancelled"
  by (auto simp: report_def Let_def split: option.splits)

text \<open>A cancelled pass 2: the output path is free, and the signals have no error.\<close>

lemma second_pass_cancelled:
  assumes "outcome (second_pass w e ff d vf k clk ev f ps) = Cancelled"
  shows "files (second_pass w e ff d vf k clk ev f ps) (output_path w) = None"
    and "length (procs (second_pass w e ff d vf k clk ev f ps)) = Suc (length ps)"
    and "\<exists>r. run_ffmpeg (cancel_at e) clk d (pass2_proc e) = Inr r
          \<and> emitted (second_pass w e ff d vf k clk ev f ps)
              = ev @ [Status Pass2Encoding, Log (LogPassHeader 2), Progress 0,
                      Log (LogCommand (shown_cmd (pass2_cmd ff w vf k)))]
                @ ff_events r @ [Log LogCancelled, Status StatusCancelled]"
  using assms
  by (auto simp: second_pass_def Let_def os_remove_def
           split: sum.splits if_splits prod.splits dest: report_not_cancelled)

lemma second_pass_terminated:
  assumes "(c, True) \<in> set (procs (second_pass w e ff d vf k clk ev f ps))"
    and "(c, True) \<notin> set ps" and "output_path w \<notin> set (locked e)"
  shows "outcome (second_pass w e ff d vf k clk ev f ps) = Cancelled"
  using assms
  by (auto simp: second_pass_def Let_def os_remove_def
           split: sum.splits if_splits prod.splits dest: run_ffmpeg_terminated_flag)

text \<open>
  A cancelled session: either the output path is free, or the session was cancelled
  after pass 1 and the file system is the one pass 1 left.
\<close>

lemma encode_cancelled:
  assumes "outcome (encode w e ff d k a f) = Cancelled"
  shows "files (encode w e ff d k a f) (output_path w) = None
         \<or> video_codec w \<noteq> ''libsvtav1'' \<and> length (procs (encode w e ff d k a f)) = 1
           \<and> files (encode w e ff d k a f) = apply_writes f (writes (pass1_proc e))"
proof (cases "vf_arg w")
  case (Inl x)
  with assms show ?thesis by (simp add: encode_def Let_def)
next
  case (Inr vf)
  show ?thesis
  proof (cases "video_codec w = ''libsvtav1''")
    case True
    with assms Inr second_pass_cancelled(1) show ?thesis
      by (simp add: encode_def Let_def)
  next
    case False
    show ?thesis
    proof (cases "run_ffmpeg (cancel_at e) 0 d (pass1_proc e)")
      case (Inl x)
      with assms Inr False show ?thesis by (simp add: encode_def Let_def)
    next
      case r: (Inr r)
      show ?thesis
      proof (cases "flag_set (cancel_at e) (ff_clock r)")
        case True
        with Inr False r show ?thesis by (simp add: encode_def Let_def)
      next
        case nf: False
        with assms Inr False r second_pass_cancelled(1) show ?thesis
          by (simp add: encode_def Let_def)
      qed
    qed
  qed
qed

lemma encode_no_error:
  assumes "outcome (encode w e ff d k a f) = Cancelled"
  shows "Error x \<notin> set (emitted (encode w e ff d k a f))"
proof (cases "vf_arg w")
  case (Inl x)
  with assms show ?thesis by (simp add: encode_def Let_def)
next
  case (Inr vf)
  show ?thesis
  proof (cases "video_codec w = ''libsvtav1''")
    case True
    with assms Inr have oc: "outcome (second_pass w e ff d vf k 0
        ([Log (LogDuration d), Log (LogTarget (target_mb w)), Log (LogVideoBitrate k)]
         @ (if a > 0 then [Log (LogAudioBitrate a)] else []) @ [Log LogBlank]
         @ [Status Pass1Analyzing, Log (LogPassHeader 1)]) f []) = Cancelled"
      by (simp add: encode_def Let_def)
    from second_pass_cancelled(3) [OF oc] True Inr show ?thesis
      by (auto simp: encode_def Let_def dest: run_ffmpeg_no_error)
  next
    case False
    show ?thesis
    proof (cases "run_ffmpeg (cancel_at e) 0 d (pass1_proc e)")
      case (Inl x)
      with assms Inr False show ?thesis by (simp add: encode_def Let_def)
    next
      case r: (Inr r)
      show ?thesis
      proof (cases "flag_set (cancel_at e) (ff_clock r)")
        case True
        with Inr False r run_ffmpeg_no_error [OF r] show ?thesis
          by (auto simp: encode_def Let_def)
      next
        case nf: False
        with assms Inr False r have oc: "outcome (second_pass w e ff d vf k (Suc (ff_clock r))
          ([Log (LogDuration d), Log (LogTarget (target_mb w)), Log (LogVideoBitrate k)]
           @ (if a > 0 then [Log (LogAudioBitrate a)] else []) @ [Log LogBlank]
           @ [Status Pass1Analyzing, Log (LogPassHeader 1)]
           @ [Log (LogCommand (shown_cmd (pass1_cmd (win32 e) ff w vf k)))] @ ff_events r)
          (apply_writes f (writes (pass1_proc e)))
          [(pass1_cmd (win32 e) ff w vf k, ff_terminated r)]) = Cancelled"
          by (simp add: encode_def Let_def)
        from second_pass_cancelled(3) [OF oc] nf Inr False r run_ffmpeg_no_error [OF r]
        show ?thesis
          by (auto simp: encode_def Let_def dest: run_ffmpeg_no_error)
      qed
    qed
  qed
qed

lemma encode_terminated:
  assumes "(c, True) \<in> set (procs (encode w e ff d k a f))"
    and "output_path w \<notin> set (locked e)"
  shows "outcome (encode w e ff d k a f) = Cancelled"
proof (cases "vf_arg w")
  case (Inl x)
  with assms show ?thesis by (simp add: encode_def Let_def)
next
  case (Inr vf)
  show ?thesis
  proof (cases "video_codec w = ''libsvtav1''")
    case True
    with assms Inr show ?thesis
      by (auto simp: encode_def Let_def intro: second_pass_terminated)
  next
    case False
    show ?thesis
    proof (cases "run_ffmpeg (cancel_at e) 0 d (pass1_proc e)")
      case (Inl x)
      with assms Inr False show ?thesis by (simp add: encode_def Let_def)
    next
      case r: (Inr r)
      show ?thesis
      proof (cases "flag_set (cancel_at e) (ff_clock r)")
        case True
        with Inr False r show ?thesis by (simp add: encode_def Let_def)
      next
        case nf: False
        then have nt: "\<not> ff_terminated r" using run_ffmpeg_terminated_flag [OF r] by auto
        with assms nf Inr False r show ?thesis
          by (auto simp: encode_def Let_def intro: second_pass_terminated)
      qed
    qed
  qed
qed

text \<open>A session that was cancelled or that spawned a process went through the encoding.\<close>

lemma run_is_encode:
  assumes "outcome (run w e f) = Cancelled \<or> procs (run w e f) \<noteq> []"
  shows "\<exists>ff d k a. run w e f = encode w e ff d k a f"
  using assms
  by (auto simp: run_def failed_def Let_def split: option.splits sum.splits if_splits)

lemma run_cancelled_output:
  assumes "outcome (run w e f) = Cancelled"
  shows "files (run w e f) (output_path w) = None
         \<or> video_codec w \<noteq> ''libsvtav1'' \<and> length (procs (run w e f)) = 1
           \<and> files (run w e f) = apply_writes f (writes (pass1_proc e))"
proof -
  from run_is_encode assms obtain ff d k a where r: "run w e f = encode w e ff d k a f"
    by blast
  from assms show ?thesis unfolding r by (rule encode_cancelled)
qed

lemma run_cancelled_no_error:
  assumes "outcome (run w e f) = Cancelled"
  shows "Error x \<notin> set (emitted (run w e f))"
proof -
  from run_is_encode assms obtain ff d k a where r: "run w e f = encode w e ff d k a f"
    by blast
  from assms show ?thesis unfolding r by (rule encode_no_error)
qed

lemma run_terminated_cancelled:
  assumes "(c, True) \<in> set (procs (run w e f))" and "output_path w \<notin> set (locked e)"
  shows "outcome (run w e f) = Cancelled"
proof -
  from assms(1) have "procs (run w e f) \<noteq> []" by auto
  with run_is_encode obtain ff d k a where r: "run w e f = encode w e ff d k a f"
    by blast
  from assms show ?thesis unfolding r by (rule encode_terminated)
qed

end
